theory Spec2Isabelle
  imports Main "HOL-Library.Sublist"
begin

section \<open>The Azure IoT Hub client of \<^verbatim>\<open>adafruit_azureiot.py\<close>\<close>

text \<open>
  The module defines one class, \<^verbatim>\<open>IOT_HUB\<close>, a thin client that formats a URL, hands
  it to an injected WiFi manager (the transport), checks the status code of the answer
  against a fixed list and returns the decoded JSON body. The embedding below follows the
  source method by method. An exception is a value of type \<open>exn\<close>; a method returns
  \<open>exn + 'a\<close> (\<open>Inl\<close> is a raise) together with the state it leaves behind. The state
  holds the attributes of the client object and a trace of what the client asked of its
  collaborators: the calls of transport methods and the calls of \<^verbatim>\<open>response.json()\<close>.
\<close>

subsection \<open>Values, exceptions, requests and responses\<close>

text \<open>A JSON value: what \<^verbatim>\<open>json=payload\<close> carries and what \<^verbatim>\<open>response.json()\<close> yields.\<close>

datatype json_value =
    JNull
  | JBool bool
  | JNum int
  | JStr string
  | JArr "json_value list"
  | JObj "(string \<times> json_value) list"

text \<open>
  A Python exception is its class and its message. The module itself raises only
  \<^verbatim>\<open>TypeError\<close>; the other classes are what the collaborators may raise
  (a missing attribute, a body that is not JSON, a network failure).
\<close>

datatype exc_class = TypeError | AttributeError | ValueError | OSError

datatype exn = Exn (exc_type: exc_class) (exc_msg: string)

datatype verb = GET | POST | PUT | PATCH | DELETE

text \<open>
  One call of a transport method: \<^verbatim>\<open>wifi.post(path, json=payload, headers=h)\<close> and its
  siblings. \<^verbatim>\<open>get\<close> and \<^verbatim>\<open>delete\<close> pass no \<^verbatim>\<open>json\<close> argument. The header dictionary has
  a single key, so it is kept as a list of pairs.
\<close>

record request =
  req_verb :: verb
  req_url :: string
  req_json :: "json_value option"
  req_headers :: "(string \<times> string) list"

text \<open>
  The response object, as far as the module reads it: the attributes
  \<^verbatim>\<open>status_code\<close> and \<^verbatim>\<open>reason\<close>, and the outcome of calling \<^verbatim>\<open>json()\<close>, which is
  the decoded body or the exception the decoder raises.
\<close>

record response =
  status_code :: int
  reason :: string
  json :: "exn + json_value"

datatype event = Call request | JsonCall

text \<open>
  The injected WiFi manager. \<open>type_str\<close> is \<^verbatim>\<open>str(type(wifi_manager))\<close>; \<open>has_method\<close>
  tells which of the five verb methods the object has; \<open>respond\<close> is what a method
  call gives back (a response, or an exception of the transport's own) after the trace
  so far. The helpers pass \<^verbatim>\<open>headers=self._azure_header\<close>, the dictionary itself and not
  a copy, so the callee can write to it: \<open>headers_after\<close> is the content of that
  dictionary when the call comes back. A transport that only reads its argument has
  \<open>headers_after w tr rq = req_headers rq\<close>.
\<close>

record transport =
  type_str :: string
  has_method :: "verb \<Rightarrow> bool"
  respond :: "event list \<Rightarrow> request \<Rightarrow> exn + response"
  headers_after :: "event list \<Rightarrow> request \<Rightarrow> (string \<times> string) list"

fun method_name :: "verb \<Rightarrow> string" where
  "method_name GET = ''get''"
| "method_name POST = ''post''"
| "method_name PUT = ''put''"
| "method_name PATCH = ''patch''"
| "method_name DELETE = ''delete''"

text \<open>
  Calling a verb method on the transport. An object without the method raises
  \<^verbatim>\<open>AttributeError\<close> (the message kept here is the attribute's name) and nothing is
  asked of the network; otherwise the call is recorded and the transport answers. The
  second component is the content of the header dictionary after the call.
\<close>

definition call_method :: "transport \<Rightarrow> request \<Rightarrow> event list \<Rightarrow> (exn + response) \<times> (string \<times> string) list \<times> event list" where
  "call_method w rq tr =
     (if has_method w (req_verb rq)
      then (respond w tr rq, headers_after w tr rq, tr @ [Call rq])
      else (Inl (Exn AttributeError (method_name (req_verb rq))), req_headers rq, tr))"

subsection \<open>Module constants\<close>

definition AZURE_API_VER :: string where
  "AZURE_API_VER = ''2018-06-30''"

definition AZURE_HTTP_ERROR_CODES :: "int list" where
  "AZURE_HTTP_ERROR_CODES = [400, 401, 404, 403, 412, 429, 500]"

subsection \<open>Formatting an integer\<close>

text \<open>\<^verbatim>\<open>"{0}".format(n)\<close> for an integer \<open>n\<close>: its decimal digits, with a sign when negative.\<close>

fun str_nat :: "nat \<Rightarrow> string" where
  "str_nat n =
     (if n < 10 then [''0123456789'' ! n]
      else str_nat (n div 10) @ [''0123456789'' ! (n mod 10)])"

declare str_nat.simps [simp del]

definition str_int :: "int \<Rightarrow> string" where
  "str_int i = (if i < 0 then CHR ''-'' # str_nat (nat (- i)) else str_nat (nat i))"

subsection \<open>The client object and its state\<close>

text \<open>The attributes \<^verbatim>\<open>_wifi\<close>, \<^verbatim>\<open>_iot_hub_url\<close>, \<^verbatim>\<open>_sas_token\<close> and \<^verbatim>\<open>_azure_header\<close>.\<close>

record IOT_HUB =
  wifi :: transport
  iot_hub_url :: string
  sas_token :: string
  azure_header :: "(string \<times> string) list"

record machine =
  obj :: IOT_HUB
  trace :: "event list"

text \<open>
  \<^verbatim>\<open>__init__\<close>: the test \<^verbatim>\<open>'ESPSPI_WiFiManager' in _wifi_type\<close> is Python's substring
  test, \<open>sublist\<close> on character lists.
\<close>

definition IOT_HUB_init :: "transport \<Rightarrow> string \<Rightarrow> string \<Rightarrow> event list \<Rightarrow> (exn + IOT_HUB) \<times> event list" where
  "IOT_HUB_init wifi_manager iot_hub_name token tr =
     (let wifi_type = type_str wifi_manager in
      if sublist ''ESPSPI_WiFiManager'' wifi_type then
        (Inr \<lparr>wifi = wifi_manager,
              iot_hub_url = ''https://'' @ iot_hub_name @ ''.azure-devices.net'',
              sas_token = token,
              azure_header = [(''Authorization'', token)]\<rparr>, tr)
      else (Inl (Exn TypeError ''This library requires a WiFiManager object.''), tr))"

subsection \<open>The status check\<close>

text \<open>
  \<^verbatim>\<open>_parse_http_status\<close> walks the list of error codes and raises at the first one equal
  to the status code; falling off the end of the loop returns \<^verbatim>\<open>None\<close>.
\<close>

fun parse_loop :: "int list \<Rightarrow> int \<Rightarrow> string \<Rightarrow> exn + unit" where
  "parse_loop [] status status_reason = Inr ()"
| "parse_loop (error # rest) status status_reason =
     (if error = status
      then Inl (Exn TypeError (''Error '' @ str_int status @ '': '' @ status_reason))
      else parse_loop rest status status_reason)"

definition parse_http_status :: "int \<Rightarrow> string \<Rightarrow> exn + unit" where
  "parse_http_status status status_reason =
     parse_loop AZURE_HTTP_ERROR_CODES status status_reason"

subsection \<open>The five verb helpers\<close>

text \<open>
  \<^verbatim>\<open>_post\<close>, \<^verbatim>\<open>_get\<close>, \<^verbatim>\<open>_delete\<close>, \<^verbatim>\<open>_patch\<close> and \<^verbatim>\<open>_put\<close>, in the order of the source.
  Each calls the transport with the stored header, checks the status, and returns
  \<^verbatim>\<open>response.json()\<close>. An exception raised on the way leaves through the helper.
  No helper assigns to an attribute of \<^verbatim>\<open>self\<close>; the header dictionary is shared with the
  callee, so \<^verbatim>\<open>self._azure_header\<close> holds afterwards whatever the call left in it.
\<close>

definition hub_post :: "string \<Rightarrow> json_value \<Rightarrow> machine \<Rightarrow> (exn + json_value) \<times> machine" where
  "hub_post path payload m =
     (case call_method (wifi (obj m))
             \<lparr>req_verb = POST, req_url = path, req_json = Some payload,
              req_headers = azure_header (obj m)\<rparr> (trace m) of
        (Inl e, hs, tr) \<Rightarrow> (Inl e, m\<lparr>obj := (obj m)\<lparr>azure_header := hs\<rparr>, trace := tr\<rparr>)
      | (Inr resp, hs, tr) \<Rightarrow>
          (case parse_http_status (status_code resp) (reason resp) of
             Inl e \<Rightarrow> (Inl e, m\<lparr>obj := (obj m)\<lparr>azure_header := hs\<rparr>, trace := tr\<rparr>)
           | Inr u \<Rightarrow>
               (json resp,
                m\<lparr>obj := (obj m)\<lparr>azure_header := hs\<rparr>, trace := tr @ [JsonCall]\<rparr>)))"

definition hub_get :: "string \<Rightarrow> machine \<Rightarrow> (exn + json_value) \<times> machine" where
  "hub_get path m =
     (case call_method (wifi (obj m))
             \<lparr>req_verb = GET, req_url = path, req_json = None,
              req_headers = azure_header (obj m)\<rparr> (trace m) of
        (Inl e, hs, tr) \<Rightarrow> (Inl e, m\<lparr>obj := (obj m)\<lparr>azure_header := hs\<rparr>, trace := tr\<rparr>)
      | (Inr resp, hs, tr) \<Rightarrow>
          (case parse_http_status (status_code resp) (reason resp) of
             Inl e \<Rightarrow> (Inl e, m\<lparr>obj := (obj m)\<lparr>azure_header := hs\<rparr>, trace := tr\<rparr>)
           | Inr u \<Rightarrow>
               (json resp,
                m\<lparr>obj := (obj m)\<lparr>azure_header := hs\<rparr>, trace := tr @ [JsonCall]\<rparr>)))"

definition hub_delete :: "string \<Rightarrow> machine \<Rightarrow> (exn + json_value) \<times> machine" where
  "hub_delete path m =
     (case call_method (wifi (obj m))
             \<lparr>req_verb = DELETE, req_url = path, req_json = None,
              req_headers = azure_header (obj m)\<rparr> (trace m) of
        (Inl e, hs, tr) \<Rightarrow> (Inl e, m\<lparr>obj := (obj m)\<lparr>azure_header := hs\<rparr>, trace := tr\<rparr>)
      | (Inr resp, hs, tr) \<Rightarrow>
          (case parse_http_status (status_code resp) (reason resp) of
             Inl e \<Rightarrow> (Inl e, m\<lparr>obj := (obj m)\<lparr>azure_header := hs\<rparr>, trace := tr\<rparr>)
           | Inr u \<Rightarrow>
               (json resp,
                m\<lparr>obj := (obj m)\<lparr>azure_header := hs\<rparr>, trace := tr @ [JsonCall]\<rparr>)))"

definition hub_patch :: "string \<Rightarrow> json_value \<Rightarrow> machine \<Rightarrow> (exn + json_value) \<times> machine" where
  "hub_patch path payload m =
     (case call_method (wifi (obj m))
             \<lparr>req_verb = PATCH, req_url = path, req_json = Some payload,
              req_headers = azure_header (obj m)\<rparr> (trace m) of
        (Inl e, hs, tr) \<Rightarrow> (Inl e, m\<lparr>obj := (obj m)\<lparr>azure_header := hs\<rparr>, trace := tr\<rparr>)
      | (Inr resp, hs, tr) \<Rightarrow>
          (case parse_http_status (status_code resp) (reason resp) of
             Inl e \<Rightarrow> (Inl e, m\<lparr>obj := (obj m)\<lparr>azure_header := hs\<rparr>, trace := tr\<rparr>)
           | Inr u \<Rightarrow>
               (json resp,
                m\<lparr>obj := (obj m)\<lparr>azure_header := hs\<rparr>, trace := tr @ [JsonCall]\<rparr>)))"

definition hub_put :: "string \<Rightarrow> json_value \<Rightarrow> machine \<Rightarrow> (exn + json_value) \<times> machine" where
  "hub_put path payload m =
     (case call_method (wifi (obj m))
             \<lparr>req_verb = PUT, req_url = path, req_json = Some payload,
              req_headers = azure_header (obj m)\<rparr> (trace m) of
        (Inl e, hs, tr) \<Rightarrow> (Inl e, m\<lparr>obj := (obj m)\<lparr>azure_header := hs\<rparr>, trace := tr\<rparr>)
      | (Inr resp, hs, tr) \<Rightarrow>
          (case parse_http_status (status_code resp) (reason resp) of
             Inl e \<Rightarrow> (Inl e, m\<lparr>obj := (obj m)\<lparr>azure_header := hs\<rparr>, trace := tr\<rparr>)
           | Inr u \<Rightarrow>
               (json resp,
                m\<lparr>obj := (obj m)\<lparr>azure_header := hs\<rparr>, trace := tr @ [JsonCall]\<rparr>)))"

subsection \<open>The public operations\<close>

text \<open>
  Each formats its path from \<^verbatim>\<open>self._iot_hub_url\<close>, the device identifier and
  \<^verbatim>\<open>AZURE_API_VER\<close>, and calls one helper. \<^verbatim>\<open>send_device_message\<close> and
  \<^verbatim>\<open>delete_device\<close> have no \<^verbatim>\<open>return\<close>: they give \<^verbatim>\<open>None\<close> when the helper returns.
\<close>

definition send_device_message :: "string \<Rightarrow> json_value \<Rightarrow> machine \<Rightarrow> (exn + unit) \<times> machine" where
  "send_device_message device_id message m =
     (let path = iot_hub_url (obj m) @ ''/devices/'' @ device_id
                 @ ''/messages/events?api-version='' @ AZURE_API_VER in
      case hub_post path message m of
        (Inl e, m') \<Rightarrow> (Inl e, m')
      | (Inr body, m') \<Rightarrow> (Inr (), m'))"

definition get_device_twin :: "string \<Rightarrow> machine \<Rightarrow> (exn + json_value) \<times> machine" where
  "get_device_twin device_id m =
     (let path = iot_hub_url (obj m) @ ''/twins/'' @ device_id
                 @ ''?api-version='' @ AZURE_API_VER in
      hub_get path m)"

definition update_device_twin :: "string \<Rightarrow> json_value \<Rightarrow> machine \<Rightarrow> (exn + json_value) \<times> machine" where
  "update_device_twin device_id properties m =
     (let path = iot_hub_url (obj m) @ ''/twins/'' @ device_id
                 @ ''?api-version='' @ AZURE_API_VER in
      hub_patch path properties m)"

definition replace_device_twin :: "string \<Rightarrow> json_value \<Rightarrow> machine \<Rightarrow> (exn + json_value) \<times> machine" where
  "replace_device_twin device_id properties m =
     (let path = iot_hub_url (obj m) @ ''/twins/'' @ device_id
                 @ ''?api-version-'' @ AZURE_API_VER in
      hub_put path properties m)"

definition get_devices :: "machine \<Rightarrow> (exn + json_value) \<times> machine" where
  "get_devices m =
     (let path = iot_hub_url (obj m) @ ''/devices/?api-version='' @ AZURE_API_VER in
      hub_get path m)"

definition get_device :: "string \<Rightarrow> machine \<Rightarrow> (exn + json_value) \<times> machine" where
  "get_device device_id m =
     (let path = iot_hub_url (obj m) @ ''/devices/'' @ device_id
                 @ ''?api-version='' @ AZURE_API_VER in
      hub_get path m)"

definition delete_device :: "string \<Rightarrow> machine \<Rightarrow> (exn + unit) \<times> machine" where
  "delete_device device_id m =
     (let path = iot_hub_url (obj m) @ ''/devices/'' @ device_id
                 @ ''?api-version='' @ AZURE_API_VER in
      case hub_delete path m of
        (Inl e, m') \<Rightarrow> (Inl e, m')
      | (Inr body, m') \<Rightarrow> (Inr (), m'))"

subsection \<open>Sample transports and responses\<close>

text \<open>
  Concrete inputs on which the theorems below are run. \<open>esp_wifi\<close> is a transport of
  the expected class that answers every call with the given response; \<open>bare_wifi\<close> has
  the class name and none of the verb methods; \<open>mock_requests\<close> has all five verb
  methods under another class name; \<open>header_writing_wifi\<close> is \<open>esp_wifi\<close> except that
  each call sets \<^verbatim>\<open>headers["Content-Type"]\<close> on the dictionary it is given.
\<close>

definition esp_wifi :: "response \<Rightarrow> transport" where
  "esp_wifi resp =
     \<lparr>type_str = ''<class 'ESPSPI_WiFiManager'>'',
      has_method = (\<lambda>v. True),
      respond = (\<lambda>tr rq. Inr resp),
      headers_after = (\<lambda>tr rq. req_headers rq)\<rparr>"

definition bare_wifi :: transport where
  "bare_wifi =
     \<lparr>type_str = ''<class 'ESPSPI_WiFiManager'>'',
      has_method = (\<lambda>v. False),
      respond = (\<lambda>tr rq. Inl (Exn OSError ''unreachable'')),
      headers_after = (\<lambda>tr rq. req_headers rq)\<rparr>"

definition mock_requests :: "response \<Rightarrow> transport" where
  "mock_requests resp =
     \<lparr>type_str = ''<class 'MockRequests'>'',
      has_method = (\<lambda>v. True),
      respond = (\<lambda>tr rq. Inr resp),
      headers_after = (\<lambda>tr rq. req_headers rq)\<rparr>"

definition header_writing_wifi :: "response \<Rightarrow> transport" where
  "header_writing_wifi resp =
     \<lparr>type_str = ''<class 'ESPSPI_WiFiManager'>'',
      has_method = (\<lambda>v. True),
      respond = (\<lambda>tr rq. Inr resp),
      headers_after = (\<lambda>tr rq. req_headers rq @ [(''Content-Type'', ''application/json'')])\<rparr>"

definition ok_response :: response where
  "ok_response =
     \<lparr>status_code = 200, reason = ''OK'',
      json = Inr (JObj [(''deviceId'', JStr ''sensor1'')])\<rparr>"

definition not_found_response :: response where
  "not_found_response =
     \<lparr>status_code = 404, reason = ''Not Found'',
      json = Inr (JObj [(''Message'', JStr ''ErrorCode:DeviceNotFound'')])\<rparr>"

definition unavailable_response :: response where
  "unavailable_response =
     \<lparr>status_code = 503, reason = ''Service Unavailable'',
      json = Inr (JObj [(''Message'', JStr ''ErrorCode:ServerBusy'')])\<rparr>"

definition no_content_response :: response where
  "no_content_response =
     \<lparr>status_code = 204, reason = ''No Content'',
      json = Inl (Exn ValueError ''syntax error in JSON'')\<rparr>"

text \<open>The client that \<^verbatim>\<open>IOT_HUB(wifi, "myhub", "SharedAccessSignature sr=...")\<close> builds.\<close>

definition myhub :: "transport \<Rightarrow> machine" where
  "myhub w =
     \<lparr>obj = \<lparr>wifi = w,
              iot_hub_url = ''https://myhub.azure-devices.net'',
              sas_token = ''SharedAccessSignature sr=...'',
              azure_header = [(''Authorization'', ''SharedAccessSignature sr=...'')]\<rparr>,
      trace = []\<rparr>"

text \<open>
  What it means for a verb helper to receive a response: the transport has the method
  and, after the trace so far, answers the request with \<open>resp\<close>.
\<close>

definition receives :: "machine \<Rightarrow> request \<Rightarrow> response \<Rightarrow> bool" where
  "receives m rq resp \<longleftrightarrow>
     has_method (wifi (obj m)) (req_verb rq) \<and> respond (wifi (obj m)) (trace m) rq = Inr resp"

text \<open>
  Two client objects agree on everything but the content of the header dictionary: the
  transport reference, the base URL and the SAS token.
\<close>

definition same_settings :: "IOT_HUB \<Rightarrow> IOT_HUB \<Rightarrow> bool" where
  "same_settings a b \<longleftrightarrow>
     wifi a = wifi b \<and> iot_hub_url a = iot_hub_url b \<and> sas_token a = sas_token b"

section \<open>Properties\<close>

subsection \<open>The status check\<close>

lemma parse_loop_raises:
  "c \<in> set codes \<Longrightarrow>
   parse_loop codes c r = Inl (Exn TypeError (''Error '' @ str_int c @ '': '' @ r))"
  by (induction codes) auto

lemma parse_loop_passes: "c \<notin> set codes \<Longrightarrow> parse_loop codes c r = Inr ()"
  by (induction codes) auto

lemma set_error_codes: "set AZURE_HTTP_ERROR_CODES = {400, 401, 403, 404, 412, 429, 500}"
  by (auto simp: AZURE_HTTP_ERROR_CODES_def)

lemma parse_http_status_raises:
  "c \<in> set AZURE_HTTP_ERROR_CODES \<Longrightarrow>
   parse_http_status c r = Inl (Exn TypeError (''Error '' @ str_int c @ '': '' @ r))"
  by (simp add: parse_http_status_def parse_loop_raises)

lemma parse_http_status_passes:
  "c \<notin> set AZURE_HTTP_ERROR_CODES \<Longrightarrow> parse_http_status c r = Inr ()"
  by (simp add: parse_http_status_def parse_loop_passes)

lemma parse_http_status_cases:
  "parse_http_status c r =
     (if c \<in> {400, 401, 403, 404, 412, 429, 500}
      then Inl (Exn TypeError (''Error '' @ str_int c @ '': '' @ r)) else Inr ())"
  using parse_http_status_raises [of c r] parse_http_status_passes [of c r]
  unfolding set_error_codes
  by (cases "c \<in> {400, 401, 403, 404, 412, 429, 500}") simp_all

subsection \<open>The verb helpers on a transport that has the method\<close>

text \<open>
  When the transport has the method, a helper records exactly one call. If the transport
  raises, so does the helper; if it answers, the status check decides between raising
  and calling \<^verbatim>\<open>json()\<close>. In every case the header attribute holds afterwards what the
  call left in the shared dictionary.
\<close>

lemma hub_get_called:
  assumes "has_method (wifi (obj m)) GET"
  shows "hub_get path m =
     (case respond (wifi (obj m)) (trace m)
             \<lparr>req_verb = GET, req_url = path, req_json = None,
              req_headers = azure_header (obj m)\<rparr> of
        Inl e \<Rightarrow> (Inl e, m\<lparr>obj := (obj m)\<lparr>azure_header :=
                           headers_after (wifi (obj m)) (trace m)
                             \<lparr>req_verb = GET, req_url = path, req_json = None,
                              req_headers = azure_header (obj m)\<rparr>\<rparr>,
                     trace := trace m @
                       [Call \<lparr>req_verb = GET, req_url = path, req_json = None,
                              req_headers = azure_header (obj m)\<rparr>]\<rparr>)
      | Inr resp \<Rightarrow>
          (case parse_http_status (status_code resp) (reason resp) of
             Inl e \<Rightarrow> (Inl e, m\<lparr>obj := (obj m)\<lparr>azure_header :=
                                headers_after (wifi (obj m)) (trace m)
                                  \<lparr>req_verb = GET, req_url = path, req_json = None,
                                   req_headers = azure_header (obj m)\<rparr>\<rparr>,
                          trace := trace m @
                            [Call \<lparr>req_verb = GET, req_url = path, req_json = None,
                                   req_headers = azure_header (obj m)\<rparr>]\<rparr>)
           | Inr u \<Rightarrow> (json resp, m\<lparr>obj := (obj m)\<lparr>azure_header :=
                                    headers_after (wifi (obj m)) (trace m)
                                      \<lparr>req_verb = GET, req_url = path, req_json = None,
                                       req_headers = azure_header (obj m)\<rparr>\<rparr>,
                              trace := trace m @
                                [Call \<lparr>req_verb = GET, req_url = path, req_json = None,
                                       req_headers = azure_header (obj m)\<rparr>, JsonCall]\<rparr>)))"
  using assms by (simp add: hub_get_def call_method_def split: sum.splits)

lemma hub_get_answered:
  assumes "has_method (wifi (obj m)) GET"
    and "respond (wifi (obj m)) (trace m)
           \<lparr>req_verb = GET, req_url = path, req_json = None,
            req_headers = azure_header (obj m)\<rparr> = Inr resp"
  shows "hub_get path m =
     (case parse_http_status (status_code resp) (reason resp) of
        Inl e \<Rightarrow> (Inl e, m\<lparr>obj := (obj m)\<lparr>azure_header :=
                           headers_after (wifi (obj m)) (trace m)
                             \<lparr>req_verb = GET, req_url = path, req_json = None,
                              req_headers = azure_header (obj m)\<rparr>\<rparr>,
                     trace := trace m @
                       [Call \<lparr>req_verb = GET, req_url = path, req_json = None,
                              req_headers = azure_header (obj m)\<rparr>]\<rparr>)
      | Inr u \<Rightarrow> (json resp, m\<lparr>obj := (obj m)\<lparr>azure_header :=
                               headers_after (wifi (obj m)) (trace m)
                                 \<lparr>req_verb = GET, req_url = path, req_json = None,
                                  req_headers = azure_header (obj m)\<rparr>\<rparr>,
                         trace := trace m @
                           [Call \<lparr>req_verb = GET, req_url = path, req_json = None,
                                  req_headers = azure_header (obj m)\<rparr>, JsonCall]\<rparr>))"
  using assms by (simp add: hub_get_called)

lemma hub_delete_called:
  assumes "has_method (wifi (obj m)) DELETE"
  shows "hub_delete path m =
     (case respond (wifi (obj m)) (trace m)
             \<lparr>req_verb = DELETE, req_url = path, req_json = None,
              req_headers = azure_header (obj m)\<rparr> of
        Inl e \<Rightarrow> (Inl e, m\<lparr>obj := (obj m)\<lparr>azure_header :=
                           headers_after (wifi (obj m)) (trace m)
                             \<lparr>req_verb = DELETE, req_url = path, req_json = None,
                              req_headers = azure_header (obj m)\<rparr>\<rparr>,
                     trace := trace m @
                       [Call \<lparr>req_verb = DELETE, req_url = path, req_json = None,
                              req_headers = azure_header (obj m)\<rparr>]\<rparr>)
      | Inr resp \<Rightarrow>
          (case parse_http_status (status_code resp) (reason resp) of
             Inl e \<Rightarrow> (Inl e, m\<lparr>obj := (obj m)\<lparr>azure_header :=
                                headers_after (wifi (obj m)) (trace m)
                                  \<lparr>req_verb = DELETE, req_url = path, req_json = None,
                                   req_headers = azure_header (obj m)\<rparr>\<rparr>,
                          trace := trace m @
                            [Call \<lparr>req_verb = DELETE, req_url = path, req_json = None,
                                   req_headers = azure_header (obj m)\<rparr>]\<rparr>)
           | Inr u \<Rightarrow> (json resp, m\<lparr>obj := (obj m)\<lparr>azure_header :=
                                    headers_after (wifi (obj m)) (trace m)
                                      \<lparr>req_verb = DELETE, req_url = path, req_json = None,
                                       req_headers = azure_header (obj m)\<rparr>\<rparr>,
                              trace := trace m @
                                [Call \<lparr>req_verb = DELETE, req_url = path, req_json = None,
                                       req_headers = azure_header (obj m)\<rparr>, JsonCall]\<rparr>)))"
  using assms by (simp add: hub_delete_def call_method_def split: sum.splits)

lemma hub_delete_answered:
  assumes "has_method (wifi (obj m)) DELETE"
    and "respond (wifi (obj m)) (trace m)
           \<lparr>req_verb = DELETE, req_url = path, req_json = None,
            req_headers = azure_header (obj m)\<rparr> = Inr resp"
  shows "hub_delete path m =
     (case parse_http_status (status_code resp) (reason resp) of
        Inl e \<Rightarrow> (Inl e, m\<lparr>obj := (obj m)\<lparr>azure_header :=
                           headers_after (wifi (obj m)) (trace m)
                             \<lparr>req_verb = DELETE, req_url = path, req_json = None,
                              req_headers = azure_header (obj m)\<rparr>\<rparr>,
                     trace := trace m @
                       [Call \<lparr>req_verb = DELETE, req_url = path, req_json = None,
                              req_headers = azure_header (obj m)\<rparr>]\<rparr>)
      | Inr u \<Rightarrow> (json resp, m\<lparr>obj := (obj m)\<lparr>azure_header :=
                               headers_after (wifi (obj m)) (trace m)
                                 \<lparr>req_verb = DELETE, req_url = path, req_json = None,
                                  req_headers = azure_header (obj m)\<rparr>\<rparr>,
                         trace := trace m @
                           [Call \<lparr>req_verb = DELETE, req_url = path, req_json = None,
                                  req_headers = azure_header (obj m)\<rparr>, JsonCall]\<rparr>))"
  using assms by (simp add: hub_delete_called)

lemma hub_post_called:
  assumes "has_method (wifi (obj m)) POST"
  shows "hub_post path payload m =
     (case respond (wifi (obj m)) (trace m)
             \<lparr>req_verb = POST, req_url = path, req_json = Some payload,
              req_headers = azure_header (obj m)\<rparr> of
        Inl e \<Rightarrow> (Inl e, m\<lparr>obj := (obj m)\<lparr>azure_header :=
                           headers_after (wifi (obj m)) (trace m)
                             \<lparr>req_verb = POST, req_url = path, req_json = Some payload,
                              req_headers = azure_header (obj m)\<rparr>\<rparr>,
                     trace := trace m @
                       [Call \<lparr>req_verb = POST, req_url = path, req_json = Some payload,
                              req_headers = azure_header (obj m)\<rparr>]\<rparr>)
      | Inr resp \<Rightarrow>
          (case parse_http_status (status_code resp) (reason resp) of
             Inl e \<Rightarrow> (Inl e, m\<lparr>obj := (obj m)\<lparr>azure_header :=
                                headers_after (wifi (obj m)) (trace m)
                                  \<lparr>req_verb = POST, req_url = path, req_json = Some payload,
                                   req_headers = azure_header (obj m)\<rparr>\<rparr>,
                          trace := trace m @
                            [Call \<lparr>req_verb = POST, req_url = path, req_json = Some payload,
                                   req_headers = azure_header (obj m)\<rparr>]\<rparr>)
           | Inr u \<Rightarrow> (json resp, m\<lparr>obj := (obj m)\<lparr>azure_header :=
                                    headers_after (wifi (obj m)) (trace m)
                                      \<lparr>req_verb = POST, req_url = path, req_json = Some payload,
                                       req_headers = azure_header (obj m)\<rparr>\<rparr>,
                              trace := trace m @
                                [Call \<lparr>req_verb = POST, req_url = path, req_json = Some payload,
                                       req_headers = azure_header (obj m)\<rparr>, JsonCall]\<rparr>)))"
  using assms by (simp add: hub_post_def call_method_def split: sum.splits)

lemma hub_post_answered:
  assumes "has_method (wifi (obj m)) POST"
    and "respond (wifi (obj m)) (trace m)
           \<lparr>req_verb = POST, req_url = path, req_json = Some payload,
            req_headers = azure_header (obj m)\<rparr> = Inr resp"
  shows "hub_post path payload m =
     (case parse_http_status (status_code resp) (reason resp) of
        Inl e \<Rightarrow> (Inl e, m\<lparr>obj := (obj m)\<lparr>azure_header :=
                           headers_after (wifi (obj m)) (trace m)
                             \<lparr>req_verb = POST, req_url = path, req_json = Some payload,
                              req_headers = azure_header (obj m)\<rparr>\<rparr>,
                     trace := trace m @
                       [Call \<lparr>req_verb = POST, req_url = path, req_json = Some payload,
                              req_headers = azure_header (obj m)\<rparr>]\<rparr>)
      | Inr u \<Rightarrow> (json resp, m\<lparr>obj := (obj m)\<lparr>azure_header :=
                               headers_after (wifi (obj m)) (trace m)
                                 \<lparr>req_verb = POST, req_url = path, req_json = Some payload,
                                  req_headers = azure_header (obj m)\<rparr>\<rparr>,
                         trace := trace m @
                           [Call \<lparr>req_verb = POST, req_url = path, req_json = Some payload,
                                  req_headers = azure_header (obj m)\<rparr>, JsonCall]\<rparr>))"
  using assms by (simp add: hub_post_called)

lemma hub_patch_called:
  assumes "has_method (wifi (obj m)) PATCH"
  shows "hub_patch path payload m =
     (case respond (wifi (obj m)) (trace m)
             \<lparr>req_verb = PATCH, req_url = path, req_json = Some payload,
              req_headers = azure_header (obj m)\<rparr> of
        Inl e \<Rightarrow> (Inl e, m\<lparr>obj := (obj m)\<lparr>azure_header :=
                           headers_after (wifi (obj m)) (trace m)
                             \<lparr>req_verb = PATCH, req_url = path, req_json = Some payload,
                              req_headers = azure_header (obj m)\<rparr>\<rparr>,
                     trace := trace m @
                       [Call \<lparr>req_verb = PATCH, req_url = path, req_json = Some payload,
                              req_headers = azure_header (obj m)\<rparr>]\<rparr>)
      | Inr resp \<Rightarrow>
          (case parse_http_status (status_code resp) (reason resp) of
             Inl e \<Rightarrow> (Inl e, m\<lparr>obj := (obj m)\<lparr>azure_header :=
                                headers_after (wifi (obj m)) (trace m)
                                  \<lparr>req_verb = PATCH, req_url = path, req_json = Some payload,
                                   req_headers = azure_header (obj m)\<rparr>\<rparr>,
                          trace := trace m @
                            [Call \<lparr>req_verb = PATCH, req_url = path, req_json = Some payload,
                                   req_headers = azure_header (obj m)\<rparr>]\<rparr>)
           | Inr u \<Rightarrow> (json resp, m\<lparr>obj := (obj m)\<lparr>azure_header :=
                                    headers_after (wifi (obj m)) (trace m)
                                      \<lparr>req_verb = PATCH, req_url = path, req_json = Some payload,
                                       req_headers = azure_header (obj m)\<rparr>\<rparr>,
                              trace := trace m @
                                [Call \<lparr>req_verb = PATCH, req_url = path, req_json = Some payload,
                                       req_headers = azure_header (obj m)\<rparr>, JsonCall]\<rparr>)))"
  using assms by (simp add: hub_patch_def call_method_def split: sum.splits)

lemma hub_patch_answered:
  assumes "has_method (wifi (obj m)) PATCH"
    and "respond (wifi (obj m)) (trace m)
           \<lparr>req_verb = PATCH, req_url = path, req_json = Some payload,
            req_headers = azure_header (obj m)\<rparr> = Inr resp"
  shows "hub_patch path payload m =
     (case parse_http_status (status_code resp) (reason resp) of
        Inl e \<Rightarrow> (Inl e, m\<lparr>obj := (obj m)\<lparr>azure_header :=
                           headers_after (wifi (obj m)) (trace m)
                             \<lparr>req_verb = PATCH, req_url = path, req_json = Some payload,
                              req_headers = azure_header (obj m)\<rparr>\<rparr>,
                     trace := trace m @
                       [Call \<lparr>req_verb = PATCH, req_url = path, req_json = Some payload,
                              req_headers = azure_header (obj m)\<rparr>]\<rparr>)
      | Inr u \<Rightarrow> (json resp, m\<lparr>obj := (obj m)\<lparr>azure_header :=
                               headers_after (wifi (obj m)) (trace m)
                                 \<lparr>req_verb = PATCH, req_url = path, req_json = Some payload,
                                  req_headers = azure_header (obj m)\<rparr>\<rparr>,
                         trace := trace m @
                           [Call \<lparr>req_verb = PATCH, req_url = path, req_json = Some payload,
                                  req_headers = azure_header (obj m)\<rparr>, JsonCall]\<rparr>))"
  using assms by (simp add: hub_patch_called)

lemma hub_put_called:
  assumes "has_method (wifi (obj m)) PUT"
  shows "hub_put path payload m =
     (case respond (wifi (obj m)) (trace m)
             \<lparr>req_verb = PUT, req_url = path, req_json = Some payload,
              req_headers = azure_header (obj m)\<rparr> of
        Inl e \<Rightarrow> (Inl e, m\<lparr>obj := (obj m)\<lparr>azure_header :=
                           headers_after (wifi (obj m)) (trace m)
                             \<lparr>req_verb = PUT, req_url = path, req_json = Some payload,
                              req_headers = azure_header (obj m)\<rparr>\<rparr>,
                     trace := trace m @
                       [Call \<lparr>req_verb = PUT, req_url = path, req_json = Some payload,
                              req_headers = azure_header (obj m)\<rparr>]\<rparr>)
      | Inr resp \<Rightarrow>
          (case parse_http_status (status_code resp) (reason resp) of
             Inl e \<Rightarrow> (Inl e, m\<lparr>obj := (obj m)\<lparr>azure_header :=
                                headers_after (wifi (obj m)) (trace m)
                                  \<lparr>req_verb = PUT, req_url = path, req_json = Some payload,
                                   req_headers = azure_header (obj m)\<rparr>\<rparr>,
                          trace := trace m @
                            [Call \<lparr>req_verb = PUT, req_url = path, req_json = Some payload,
                                   req_headers = azure_header (obj m)\<rparr>]\<rparr>)
           | Inr u \<Rightarrow> (json resp, m\<lparr>obj := (obj m)\<lparr>azure_header :=
                                    headers_after (wifi (obj m)) (trace m)
                                      \<lparr>req_verb = PUT, req_url = path, req_json = Some payload,
                                       req_headers = azure_header (obj m)\<rparr>\<rparr>,
                              trace := trace m @
                                [Call \<lparr>req_verb = PUT, req_url = path, req_json = Some payload,
                                       req_headers = azure_header (obj m)\<rparr>, JsonCall]\<rparr>)))"
  using assms by (simp add: hub_put_def call_method_def split: sum.splits)

lemma hub_put_answered:
  assumes "has_method (wifi (obj m)) PUT"
    and "respond (wifi (obj m)) (trace m)
           \<lparr>req_verb = PUT, req_url = path, req_json = Some payload,
            req_headers = azure_header (obj m)\<rparr> = Inr resp"
  shows "hub_put path payload m =
     (case parse_http_status (status_code resp) (reason resp) of
        Inl e \<Rightarrow> (Inl e, m\<lparr>obj := (obj m)\<lparr>azure_header :=
                           headers_after (wifi (obj m)) (trace m)
                             \<lparr>req_verb = PUT, req_url = path, req_json = Some payload,
                              req_headers = azure_header (obj m)\<rparr>\<rparr>,
                     trace := trace m @
                       [Call \<lparr>req_verb = PUT, req_url = path, req_json = Some payload,
                              req_headers = azure_header (obj m)\<rparr>]\<rparr>)
      | Inr u \<Rightarrow> (json resp, m\<lparr>obj := (obj m)\<lparr>azure_header :=
                               headers_after (wifi (obj m)) (trace m)
                                 \<lparr>req_verb = PUT, req_url = path, req_json = Some payload,
                                  req_headers = azure_header (obj m)\<rparr>\<rparr>,
                         trace := trace m @
                           [Call \<lparr>req_verb = PUT, req_url = path, req_json = Some payload,
                                  req_headers = azure_header (obj m)\<rparr>, JsonCall]\<rparr>))"
  using assms by (simp add: hub_put_called)

subsection \<open>What the helpers leave of the client object\<close>

text \<open>
  A helper leaves the transport reference, the base URL and the token as they were, and
  the header too when the transport does not write to the dictionary it is handed.
\<close>

lemma hub_get_settings: "same_settings (obj (snd (hub_get path m))) (obj m)"
  by (simp add: same_settings_def hub_get_def split: prod.splits sum.splits)

lemma hub_get_object:
  assumes "\<And>tr rq. headers_after (wifi (obj m)) tr rq = req_headers rq"
  shows "obj (snd (hub_get path m)) = obj m"
  using assms by (simp add: hub_get_def call_method_def split: prod.splits sum.splits)

lemma hub_delete_settings: "same_settings (obj (snd (hub_delete path m))) (obj m)"
  by (simp add: same_settings_def hub_delete_def split: prod.splits sum.splits)

lemma hub_delete_object:
  assumes "\<And>tr rq. headers_after (wifi (obj m)) tr rq = req_headers rq"
  shows "obj (snd (hub_delete path m)) = obj m"
  using assms by (simp add: hub_delete_def call_method_def split: prod.splits sum.splits)

lemma hub_post_settings: "same_settings (obj (snd (hub_post path payload m))) (obj m)"
  by (simp add: same_settings_def hub_post_def split: prod.splits sum.splits)

lemma hub_post_object:
  assumes "\<And>tr rq. headers_after (wifi (obj m)) tr rq = req_headers rq"
  shows "obj (snd (hub_post path payload m)) = obj m"
  using assms by (simp add: hub_post_def call_method_def split: prod.splits sum.splits)

lemma hub_patch_settings: "same_settings (obj (snd (hub_patch path payload m))) (obj m)"
  by (simp add: same_settings_def hub_patch_def split: prod.splits sum.splits)

lemma hub_patch_object:
  assumes "\<And>tr rq. headers_after (wifi (obj m)) tr rq = req_headers rq"
  shows "obj (snd (hub_patch path payload m)) = obj m"
  using assms by (simp add: hub_patch_def call_method_def split: prod.splits sum.splits)

lemma hub_put_settings: "same_settings (obj (snd (hub_put path payload m))) (obj m)"
  by (simp add: same_settings_def hub_put_def split: prod.splits sum.splits)

lemma hub_put_object:
  assumes "\<And>tr rq. headers_after (wifi (obj m)) tr rq = req_headers rq"
  shows "obj (snd (hub_put path payload m)) = obj m"
  using assms by (simp add: hub_put_def call_method_def split: prod.splits sum.splits)

lemma same_settings_discard_body:
  "same_settings
     (obj (snd (case x of (Inl e, m') \<Rightarrow> (Inl e, m') | (Inr body, m') \<Rightarrow> (Inr (), m')))) c =
   same_settings (obj (snd x)) c"
  by (simp split: prod.splits sum.splits)

lemma snd_discard_body:
  "snd (case x of (Inl e, m') \<Rightarrow> (Inl e, m') | (Inr body, m') \<Rightarrow> (Inr (), m')) = snd x"
  by (simp split: prod.splits sum.splits)

subsection \<open>Construction\<close>

lemma init_accepts:
  "sublist ''ESPSPI_WiFiManager'' (type_str w) \<Longrightarrow>
   IOT_HUB_init w h t tr =
     (Inr \<lparr>wifi = w, iot_hub_url = ''https://'' @ h @ ''.azure-devices.net'',
            sas_token = t, azure_header = [(''Authorization'', t)]\<rparr>, tr)"
  by (simp add: IOT_HUB_init_def)

lemma init_rejects:
  "\<not> sublist ''ESPSPI_WiFiManager'' (type_str w) \<Longrightarrow>
   IOT_HUB_init w h t tr =
     (Inl (Exn TypeError ''This library requires a WiFiManager object.''), tr)"
  by (simp add: IOT_HUB_init_def)

subsection \<open>Evaluations on the sample inputs\<close>

lemma esp_class_name: "sublist ''ESPSPI_WiFiManager'' ''<class 'ESPSPI_WiFiManager'>''"
  by code_simp

lemma mock_class_name: "\<not> sublist ''ESPSPI_WiFiManager'' ''<class 'MockRequests'>''"
  by code_simp

lemma str_int_404: "str_int 404 = ''404''"
  by code_simp

lemma esp_wifi_keeps_headers:
  "headers_after (wifi (obj (myhub (esp_wifi resp)))) tr rq = req_headers rq"
  by (simp add: myhub_def esp_wifi_def)

lemma myhub_unchanged:
  "(myhub w)\<lparr>obj := (obj (myhub w))
       \<lparr>azure_header := [(''Authorization'', ''SharedAccessSignature sr=...'')]\<rparr>,
     trace := tr\<rparr> = (myhub w)\<lparr>trace := tr\<rparr>"
  by (simp add: myhub_def)

section \<open>The claims\<close>

text \<open>
  C1. The claim: \<^verbatim>\<open>replace_device_twin(d, properties)\<close> sends a PUT to the hub base URL
  followed by \<^verbatim>\<open>/twins/{d}?api-version=2018-06-30\<close>. The source's format string reads
  \<^verbatim>\<open>api-version-{2}\<close>, with a hyphen where its siblings \<^verbatim>\<open>get_device_twin\<close> and
  \<^verbatim>\<open>update_device_twin\<close> have \<^verbatim>\<open>=\<close>. Run on hub \<^verbatim>\<open>myhub\<close> and device \<^verbatim>\<open>sensor1\<close>, the
  PUT goes to \<^verbatim>\<open>.../twins/sensor1?api-version-2018-06-30\<close>, which is not the documented
  URL, while \<^verbatim>\<open>update_device_twin\<close> on the same input sends the documented one.
\<close>

theorem replace_device_twin_path:
  "replace_device_twin ''sensor1'' (JObj [(''tags'', JObj [])]) (myhub (esp_wifi ok_response)) =
     (Inr (JObj [(''deviceId'', JStr ''sensor1'')]),
      \<lparr>obj = obj (myhub (esp_wifi ok_response)),
       trace =
         [Call \<lparr>req_verb = PUT,
                req_url = ''https://myhub.azure-devices.net/twins/sensor1?api-version-2018-06-30'',
                req_json = Some (JObj [(''tags'', JObj [])]),
                req_headers = [(''Authorization'', ''SharedAccessSignature sr=...'')]\<rparr>,
          JsonCall]\<rparr>)
   \<and> ''https://myhub.azure-devices.net/twins/sensor1?api-version-2018-06-30''
       \<noteq> ''https://myhub.azure-devices.net'' @ ''/twins/'' @ ''sensor1''
          @ ''?api-version='' @ AZURE_API_VER
   \<and> trace (snd (update_device_twin ''sensor1'' (JObj [(''tags'', JObj [])])
        (myhub (esp_wifi ok_response)))) =
         [Call \<lparr>req_verb = PATCH,
                req_url = ''https://myhub.azure-devices.net/twins/sensor1?api-version=2018-06-30'',
                req_json = Some (JObj [(''tags'', JObj [])]),
                req_headers = [(''Authorization'', ''SharedAccessSignature sr=...'')]\<rparr>,
          JsonCall]"
proof -
  let ?m = "myhub (esp_wifi ok_response)"
  have has: "has_method (wifi (obj ?m)) v" for v
    by (simp add: myhub_def esp_wifi_def)
  have transport: "respond (wifi (obj ?m)) tr rq = Inr ok_response"
    "headers_after (wifi (obj ?m)) tr rq = req_headers rq" for tr rq
    by (simp_all add: myhub_def esp_wifi_def)
  have fields: "status_code ok_response = 200"
    "json ok_response = Inr (JObj [(''deviceId'', JStr ''sensor1'')])"
    by (simp_all add: ok_response_def)
  show ?thesis
    unfolding replace_device_twin_def update_device_twin_def Let_def
      hub_put_called [OF has] hub_patch_called [OF has] parse_http_status_cases
    by (simp add: transport fields AZURE_API_VER_def) (simp add: myhub_def)
qed

text \<open>
  C2. For every integer status code \<open>c\<close>, the status check of the verb helpers fails if
  and only if \<open>c\<close> is one of 400, 401, 403, 404, 412, 429, 500; every other code,
  for instance the unlisted error code 503, passes the check.
\<close>

theorem status_check_fails_iff_listed:
  "(isl (parse_http_status c r) \<longleftrightarrow> c \<in> {400, 401, 403, 404, 412, 429, 500})
   \<and> parse_http_status c r =
       (if c \<in> {400, 401, 403, 404, 412, 429, 500}
        then Inl (Exn TypeError (''Error '' @ str_int c @ '': '' @ r)) else Inr ())
   \<and> parse_http_status 503 r = Inr ()"
proof -
  have eq: "parse_http_status c r =
       (if c \<in> {400, 401, 403, 404, 412, 429, 500}
        then Inl (Exn TypeError (''Error '' @ str_int c @ '': '' @ r)) else Inr ())"
    using parse_http_status_raises [of c r] parse_http_status_passes [of c r]
    unfolding set_error_codes by (cases "c \<in> {400, 401, 403, 404, 412, 429, 500}") simp_all
  have "parse_http_status 503 r = Inr ()"
    by (rule parse_http_status_passes) (simp add: set_error_codes)
  with eq show ?thesis by (simp only: isl_def) auto
qed

text \<open>
  C3. For every response whose status code is one of 400, 401, 403, 404, 412, 429, 500,
  each of the five verb helpers that receives it raises the \<^verbatim>\<open>TypeError\<close> whose message
  is \<^verbatim>\<open>Error {code}: {reason}\<close>, and the trace ends with the transport call: \<^verbatim>\<open>json()\<close>
  is not called on the response. The state is given in full: the header attribute holds
  what the call left in the dictionary, and nothing else of the client has changed.
\<close>

theorem listed_status_raises_without_decoding:
  assumes "status_code resp \<in> {400, 401, 403, 404, 412, 429, 500}"
  shows
    "(receives m \<lparr>req_verb = GET, req_url = path, req_json = None,
                 req_headers = azure_header (obj m)\<rparr> resp \<longrightarrow>
        hub_get path m =
          (Inl (Exn TypeError (''Error '' @ str_int (status_code resp) @ '': '' @ reason resp)),
           m\<lparr>obj := (obj m)\<lparr>azure_header :=
                 headers_after (wifi (obj m)) (trace m)
                   \<lparr>req_verb = GET, req_url = path, req_json = None,
                    req_headers = azure_header (obj m)\<rparr>\<rparr>,
             trace := trace m @
               [Call \<lparr>req_verb = GET, req_url = path, req_json = None,
                    req_headers = azure_header (obj m)\<rparr>]\<rparr>))
   \<and> (receives m \<lparr>req_verb = POST, req_url = path, req_json = Some payload,
                 req_headers = azure_header (obj m)\<rparr> resp \<longrightarrow>
        hub_post path payload m =
          (Inl (Exn TypeError (''Error '' @ str_int (status_code resp) @ '': '' @ reason resp)),
           m\<lparr>obj := (obj m)\<lparr>azure_header :=
                 headers_after (wifi (obj m)) (trace m)
                   \<lparr>req_verb = POST, req_url = path, req_json = Some payload,
                    req_headers = azure_header (obj m)\<rparr>\<rparr>,
             trace := trace m @
               [Call \<lparr>req_verb = POST, req_url = path, req_json = Some payload,
                    req_headers = azure_header (obj m)\<rparr>]\<rparr>))
   \<and> (receives m \<lparr>req_verb = PUT, req_url = path, req_json = Some payload,
                 req_headers = azure_header (obj m)\<rparr> resp \<longrightarrow>
        hub_put path payload m =
          (Inl (Exn TypeError (''Error '' @ str_int (status_code resp) @ '': '' @ reason resp)),
           m\<lparr>obj := (obj m)\<lparr>azure_header :=
                 headers_after (wifi (obj m)) (trace m)
                   \<lparr>req_verb = PUT, req_url = path, req_json = Some payload,
                    req_headers = azure_header (obj m)\<rparr>\<rparr>,
             trace := trace m @
               [Call \<lparr>req_verb = PUT, req_url = path, req_json = Some payload,
                    req_headers = azure_header (obj m)\<rparr>]\<rparr>))
   \<and> (receives m \<lparr>req_verb = PATCH, req_url = path, req_json = Some payload,
                 req_headers = azure_header (obj m)\<rparr> resp \<longrightarrow>
        hub_patch path payload m =
          (Inl (Exn TypeError (''Error '' @ str_int (status_code resp) @ '': '' @ reason resp)),
           m\<lparr>obj := (obj m)\<lparr>azure_header :=
                 headers_after (wifi (obj m)) (trace m)
                   \<lparr>req_verb = PATCH, req_url = path, req_json = Some payload,
                    req_headers = azure_header (obj m)\<rparr>\<rparr>,
             trace := trace m @
               [Call \<lparr>req_verb = PATCH, req_url = path, req_json = Some payload,
                    req_headers = azure_header (obj m)\<rparr>]\<rparr>))
   \<and> (receives m \<lparr>req_verb = DELETE, req_url = path, req_json = None,
                 req_headers = azure_header (obj m)\<rparr> resp \<longrightarrow>
        hub_delete path m =
          (Inl (Exn TypeError (''Error '' @ str_int (status_code resp) @ '': '' @ reason resp)),
           m\<lparr>obj := (obj m)\<lparr>azure_header :=
                 headers_after (wifi (obj m)) (trace m)
                   \<lparr>req_verb = DELETE, req_url = path, req_json = None,
                    req_headers = azure_header (obj m)\<rparr>\<rparr>,
             trace := trace m @
               [Call \<lparr>req_verb = DELETE, req_url = path, req_json = None,
                    req_headers = azure_header (obj m)\<rparr>]\<rparr>))"
proof -
  from assms have listed: "status_code resp \<in> set AZURE_HTTP_ERROR_CODES"
    by (simp only: set_error_codes)
  note raised = parse_http_status_raises [OF listed, of "reason resp"]
  show ?thesis
    by (simp add: receives_def raised hub_get_answered hub_post_answered hub_put_answered
        hub_patch_answered hub_delete_answered)
qed

theorem listed_status_raises_without_decoding_witness:
  "hub_get ''https://myhub.azure-devices.net/devices/sensor1?api-version=2018-06-30''
       (myhub (esp_wifi not_found_response)) =
     (Inl (Exn TypeError ''Error 404: Not Found''),
      (myhub (esp_wifi not_found_response))
        \<lparr>trace := [Call \<lparr>req_verb = GET,
            req_url = ''https://myhub.azure-devices.net/devices/sensor1?api-version=2018-06-30'',
            req_json = None,
            req_headers = [(''Authorization'', ''SharedAccessSignature sr=...'')]\<rparr>]\<rparr>)
   \<and> hub_post ''u'' (JStr ''hello'') (myhub (esp_wifi not_found_response)) =
     (Inl (Exn TypeError ''Error 404: Not Found''),
      (myhub (esp_wifi not_found_response))
        \<lparr>trace := [Call \<lparr>req_verb = POST, req_url = ''u'', req_json = Some (JStr ''hello''),
            req_headers = [(''Authorization'', ''SharedAccessSignature sr=...'')]\<rparr>]\<rparr>)
   \<and> hub_put ''u'' (JStr ''hello'') (myhub (esp_wifi not_found_response)) =
     (Inl (Exn TypeError ''Error 404: Not Found''),
      (myhub (esp_wifi not_found_response))
        \<lparr>trace := [Call \<lparr>req_verb = PUT, req_url = ''u'', req_json = Some (JStr ''hello''),
            req_headers = [(''Authorization'', ''SharedAccessSignature sr=...'')]\<rparr>]\<rparr>)
   \<and> hub_patch ''u'' (JStr ''hello'') (myhub (esp_wifi not_found_response)) =
     (Inl (Exn TypeError ''Error 404: Not Found''),
      (myhub (esp_wifi not_found_response))
        \<lparr>trace := [Call \<lparr>req_verb = PATCH, req_url = ''u'', req_json = Some (JStr ''hello''),
            req_headers = [(''Authorization'', ''SharedAccessSignature sr=...'')]\<rparr>]\<rparr>)
   \<and> hub_delete ''u'' (myhub (esp_wifi not_found_response)) =
     (Inl (Exn TypeError ''Error 404: Not Found''),
      (myhub (esp_wifi not_found_response))
        \<lparr>trace := [Call \<lparr>req_verb = DELETE, req_url = ''u'', req_json = None,
            req_headers = [(''Authorization'', ''SharedAccessSignature sr=...'')]\<rparr>]\<rparr>)"
proof -
  have listed: "status_code not_found_response \<in> {400, 401, 403, 404, 412, 429, 500}"
    by (simp add: not_found_response_def)
  have rcv: "receives (myhub (esp_wifi not_found_response)) rq not_found_response" for rq
    by (simp add: receives_def myhub_def esp_wifi_def)
  have hdr: "azure_header (obj (myhub (esp_wifi not_found_response))) =
      [(''Authorization'', ''SharedAccessSignature sr=...'')]"
    by (simp add: myhub_def)
  have tr: "trace (myhub (esp_wifi not_found_response)) = []"
    by (simp add: myhub_def)
  have fields: "status_code not_found_response = 404" "reason not_found_response = ''Not Found''"
    by (simp_all add: not_found_response_def)
  show ?thesis
    using listed_status_raises_without_decoding [OF listed,
        of "myhub (esp_wifi not_found_response)"
           "''https://myhub.azure-devices.net/devices/sensor1?api-version=2018-06-30''"
           "JStr ''hello''"]
      listed_status_raises_without_decoding [OF listed,
        of "myhub (esp_wifi not_found_response)" "''u''" "JStr ''hello''"]
    by (simp add: rcv hdr tr fields str_int_404 esp_wifi_keeps_headers myhub_unchanged)
qed

text \<open>
  C4. For every response whose status code is not one of the seven listed codes, each
  verb helper that receives it calls \<^verbatim>\<open>json()\<close> on the response and returns exactly what
  that call gives: the decoded body, or the decoder's own exception when the body is not
  JSON (a 204 with an empty body, for instance). The helper raises nothing of its own.
\<close>

theorem unlisted_status_returns_decoder_result:
  assumes "status_code resp \<notin> {400, 401, 403, 404, 412, 429, 500}"
  shows
    "(receives m \<lparr>req_verb = GET, req_url = path, req_json = None,
                 req_headers = azure_header (obj m)\<rparr> resp \<longrightarrow>
        hub_get path m =
          (json resp,
           m\<lparr>obj := (obj m)\<lparr>azure_header :=
                 headers_after (wifi (obj m)) (trace m)
                   \<lparr>req_verb = GET, req_url = path, req_json = None,
                    req_headers = azure_header (obj m)\<rparr>\<rparr>,
             trace := trace m @
               [Call \<lparr>req_verb = GET, req_url = path, req_json = None,
                    req_headers = azure_header (obj m)\<rparr>, JsonCall]\<rparr>))
   \<and> (receives m \<lparr>req_verb = POST, req_url = path, req_json = Some payload,
                 req_headers = azure_header (obj m)\<rparr> resp \<longrightarrow>
        hub_post path payload m =
          (json resp,
           m\<lparr>obj := (obj m)\<lparr>azure_header :=
                 headers_after (wifi (obj m)) (trace m)
                   \<lparr>req_verb = POST, req_url = path, req_json = Some payload,
                    req_headers = azure_header (obj m)\<rparr>\<rparr>,
             trace := trace m @
               [Call \<lparr>req_verb = POST, req_url = path, req_json = Some payload,
                    req_headers = azure_header (obj m)\<rparr>, JsonCall]\<rparr>))
   \<and> (receives m \<lparr>req_verb = PUT, req_url = path, req_json = Some payload,
                 req_headers = azure_header (obj m)\<rparr> resp \<longrightarrow>
        hub_put path payload m =
          (json resp,
           m\<lparr>obj := (obj m)\<lparr>azure_header :=
                 headers_after (wifi (obj m)) (trace m)
                   \<lparr>req_verb = PUT, req_url = path, req_json = Some payload,
                    req_headers = azure_header (obj m)\<rparr>\<rparr>,
             trace := trace m @
               [Call \<lparr>req_verb = PUT, req_url = path, req_json = Some payload,
                    req_headers = azure_header (obj m)\<rparr>, JsonCall]\<rparr>))
   \<and> (receives m \<lparr>req_verb = PATCH, req_url = path, req_json = Some payload,
                 req_headers = azure_header (obj m)\<rparr> resp \<longrightarrow>
        hub_patch path payload m =
          (json resp,
           m\<lparr>obj := (obj m)\<lparr>azure_header :=
                 headers_after (wifi (obj m)) (trace m)
                   \<lparr>req_verb = PATCH, req_url = path, req_json = Some payload,
                    req_headers = azure_header (obj m)\<rparr>\<rparr>,
             trace := trace m @
               [Call \<lparr>req_verb = PATCH, req_url = path, req_json = Some payload,
                    req_headers = azure_header (obj m)\<rparr>, JsonCall]\<rparr>))
   \<and> (receives m \<lparr>req_verb = DELETE, req_url = path, req_json = None,
                 req_headers = azure_header (obj m)\<rparr> resp \<longrightarrow>
        hub_delete path m =
          (json resp,
           m\<lparr>obj := (obj m)\<lparr>azure_header :=
                 headers_after (wifi (obj m)) (trace m)
                   \<lparr>req_verb = DELETE, req_url = path, req_json = None,
                    req_headers = azure_header (obj m)\<rparr>\<rparr>,
             trace := trace m @
               [Call \<lparr>req_verb = DELETE, req_url = path, req_json = None,
                    req_headers = azure_header (obj m)\<rparr>, JsonCall]\<rparr>))"
proof -
  from assms have unlisted: "status_code resp \<notin> set AZURE_HTTP_ERROR_CODES"
    by (simp only: set_error_codes not_False_eq_True)
  note passed = parse_http_status_passes [OF unlisted, of "reason resp"]
  show ?thesis
    by (simp add: receives_def passed hub_get_answered hub_post_answered hub_put_answered
        hub_patch_answered hub_delete_answered)
qed

theorem unlisted_status_returns_decoder_result_witness:
  "hub_get ''u'' (myhub (esp_wifi unavailable_response)) =
     (Inr (JObj [(''Message'', JStr ''ErrorCode:ServerBusy'')]),
      (myhub (esp_wifi unavailable_response))
        \<lparr>trace := [Call \<lparr>req_verb = GET, req_url = ''u'', req_json = None,
            req_headers = [(''Authorization'', ''SharedAccessSignature sr=...'')]\<rparr>,
          JsonCall]\<rparr>)
   \<and> hub_post ''u'' (JStr ''hello'') (myhub (esp_wifi no_content_response)) =
     (Inl (Exn ValueError ''syntax error in JSON''),
      (myhub (esp_wifi no_content_response))
        \<lparr>trace := [Call \<lparr>req_verb = POST, req_url = ''u'', req_json = Some (JStr ''hello''),
            req_headers = [(''Authorization'', ''SharedAccessSignature sr=...'')]\<rparr>,
          JsonCall]\<rparr>)
   \<and> hub_put ''u'' (JStr ''hello'') (myhub (esp_wifi ok_response)) =
     (Inr (JObj [(''deviceId'', JStr ''sensor1'')]),
      (myhub (esp_wifi ok_response))
        \<lparr>trace := [Call \<lparr>req_verb = PUT, req_url = ''u'', req_json = Some (JStr ''hello''),
            req_headers = [(''Authorization'', ''SharedAccessSignature sr=...'')]\<rparr>,
          JsonCall]\<rparr>)
   \<and> hub_patch ''u'' (JStr ''hello'') (myhub (esp_wifi ok_response)) =
     (Inr (JObj [(''deviceId'', JStr ''sensor1'')]),
      (myhub (esp_wifi ok_response))
        \<lparr>trace := [Call \<lparr>req_verb = PATCH, req_url = ''u'', req_json = Some (JStr ''hello''),
            req_headers = [(''Authorization'', ''SharedAccessSignature sr=...'')]\<rparr>,
          JsonCall]\<rparr>)
   \<and> hub_delete ''u'' (myhub (esp_wifi no_content_response)) =
     (Inl (Exn ValueError ''syntax error in JSON''),
      (myhub (esp_wifi no_content_response))
        \<lparr>trace := [Call \<lparr>req_verb = DELETE, req_url = ''u'', req_json = None,
            req_headers = [(''Authorization'', ''SharedAccessSignature sr=...'')]\<rparr>,
          JsonCall]\<rparr>)"
proof -
  have u503: "status_code unavailable_response \<notin> {400, 401, 403, 404, 412, 429, 500}"
    by (simp add: unavailable_response_def)
  have u204: "status_code no_content_response \<notin> {400, 401, 403, 404, 412, 429, 500}"
    by (simp add: no_content_response_def)
  have u200: "status_code ok_response \<notin> {400, 401, 403, 404, 412, 429, 500}"
    by (simp add: ok_response_def)
  have rcv: "receives (myhub (esp_wifi resp)) rq resp" for rq resp
    by (simp add: receives_def myhub_def esp_wifi_def)
  have hdr: "azure_header (obj (myhub w)) =
      [(''Authorization'', ''SharedAccessSignature sr=...'')]" for w
    by (simp add: myhub_def)
  have tr: "trace (myhub w) = []" for w
    by (simp add: myhub_def)
  have bodies:
    "json unavailable_response = Inr (JObj [(''Message'', JStr ''ErrorCode:ServerBusy'')])"
    "json no_content_response = Inl (Exn ValueError ''syntax error in JSON'')"
    "json ok_response = Inr (JObj [(''deviceId'', JStr ''sensor1'')])"
    by (simp_all add: unavailable_response_def no_content_response_def ok_response_def)
  show ?thesis
    using unlisted_status_returns_decoder_result [OF u503,
        of "myhub (esp_wifi unavailable_response)" "''u''" "JStr ''hello''"]
      unlisted_status_returns_decoder_result [OF u204,
        of "myhub (esp_wifi no_content_response)" "''u''" "JStr ''hello''"]
      unlisted_status_returns_decoder_result [OF u200,
        of "myhub (esp_wifi ok_response)" "''u''" "JStr ''hello''"]
    by (simp add: rcv hdr tr bodies esp_wifi_keeps_headers myhub_unchanged)
qed

text \<open>
  C5. The claim: a transport lacking one of the five verb methods is rejected at
  construction, and one that has all five is accepted. The constructor does not look at
  the methods: it tests the name of the transport's class. A transport with all five
  methods and another class name is rejected, and one with the class name and no verb
  method is accepted.
\<close>

theorem construction_is_not_a_capability_check:
  "has_method (mock_requests ok_response) GET \<and> has_method (mock_requests ok_response) POST
   \<and> has_method (mock_requests ok_response) PUT \<and> has_method (mock_requests ok_response) PATCH
   \<and> has_method (mock_requests ok_response) DELETE
   \<and> IOT_HUB_init (mock_requests ok_response) ''myhub'' ''SharedAccessSignature sr=...'' [] =
       (Inl (Exn TypeError ''This library requires a WiFiManager object.''), [])
   \<and> \<not> has_method bare_wifi GET \<and> \<not> has_method bare_wifi POST \<and> \<not> has_method bare_wifi PUT
   \<and> \<not> has_method bare_wifi PATCH \<and> \<not> has_method bare_wifi DELETE
   \<and> IOT_HUB_init bare_wifi ''myhub'' ''SharedAccessSignature sr=...'' [] =
       (Inr (obj (myhub bare_wifi)), [])"
  by (simp add: IOT_HUB_init_def mock_requests_def bare_wifi_def myhub_def
      esp_class_name mock_class_name)

text \<open>
  C5, as amended. A transport whose class name does not contain
  \<^verbatim>\<open>ESPSPI_WiFiManager\<close> is rejected with a \<^verbatim>\<open>TypeError\<close>, a transport whose class
  name contains it is accepted, and in both cases construction leaves the trace as it
  was: no transport method is called.
\<close>

theorem construction_checks_class_name_before_any_call:
  "(\<not> sublist ''ESPSPI_WiFiManager'' (type_str w) \<longrightarrow>
      IOT_HUB_init w h t tr =
        (Inl (Exn TypeError ''This library requires a WiFiManager object.''), tr))
   \<and> (sublist ''ESPSPI_WiFiManager'' (type_str w) \<longrightarrow>
      IOT_HUB_init w h t tr =
        (Inr \<lparr>wifi = w, iot_hub_url = ''https://'' @ h @ ''.azure-devices.net'',
               sas_token = t, azure_header = [(''Authorization'', t)]\<rparr>, tr))
   \<and> snd (IOT_HUB_init w h t tr) = tr"
  by (simp add: IOT_HUB_init_def)

theorem construction_checks_class_name_before_any_call_witness:
  "IOT_HUB_init (mock_requests ok_response) ''myhub'' ''SharedAccessSignature sr=...'' [] =
     (Inl (Exn TypeError ''This library requires a WiFiManager object.''), [])
   \<and> IOT_HUB_init (esp_wifi ok_response) ''myhub'' ''SharedAccessSignature sr=...'' [] =
     (Inr (obj (myhub (esp_wifi ok_response))), [])"
proof -
  have mock: "\<not> sublist ''ESPSPI_WiFiManager'' (type_str (mock_requests ok_response))"
    by (simp add: mock_requests_def mock_class_name)
  have esp: "sublist ''ESPSPI_WiFiManager'' (type_str (esp_wifi ok_response))"
    by (simp add: esp_wifi_def esp_class_name)
  show ?thesis
    using construction_checks_class_name_before_any_call [of "mock_requests ok_response"
        "''myhub''" "''SharedAccessSignature sr=...''" "[]"] mock
      construction_checks_class_name_before_any_call [of "esp_wifi ok_response"
        "''myhub''" "''SharedAccessSignature sr=...''" "[]"] esp
    by (simp add: myhub_def)
qed






text \<open>
  C8. The claim: every public operation leaves the transport reference, the base URL,
  the SAS token and the authorization header unchanged. The helpers hand
  \<^verbatim>\<open>self._azure_header\<close> itself to the transport, so a transport that writes to its
  \<^verbatim>\<open>headers\<close> argument changes the client's header: after one \<^verbatim>\<open>get_device\<close> through such
  a transport the header has a second entry.
\<close>

theorem transport_can_rewrite_the_header:
  "IOT_HUB_init (header_writing_wifi ok_response) ''myhub'' ''SharedAccessSignature sr=...'' [] =
     (Inr (obj (myhub (header_writing_wifi ok_response))), [])
   \<and> azure_header (obj (myhub (header_writing_wifi ok_response))) =
       [(''Authorization'', ''SharedAccessSignature sr=...'')]
   \<and> fst (get_device ''sensor1'' (myhub (header_writing_wifi ok_response))) =
       Inr (JObj [(''deviceId'', JStr ''sensor1'')])
   \<and> azure_header (obj (snd (get_device ''sensor1'' (myhub (header_writing_wifi ok_response))))) =
       [(''Authorization'', ''SharedAccessSignature sr=...''),
        (''Content-Type'', ''application/json'')]
   \<and> obj (snd (get_device ''sensor1'' (myhub (header_writing_wifi ok_response))))
       \<noteq> obj (myhub (header_writing_wifi ok_response))"
proof -
  let ?w = "header_writing_wifi ok_response"
  let ?m = "myhub ?w"
  have built: "IOT_HUB_init ?w ''myhub'' ''SharedAccessSignature sr=...'' [] =
      (Inr (obj ?m), [])"
    using init_accepts [of ?w "''myhub''" "''SharedAccessSignature sr=...''" "[]"]
    by (simp add: header_writing_wifi_def esp_class_name myhub_def)
  have has: "has_method (wifi (obj ?m)) GET"
    by (simp add: myhub_def header_writing_wifi_def)
  have transport: "respond (wifi (obj ?m)) tr rq = Inr ok_response"
    "headers_after (wifi (obj ?m)) tr rq =
       req_headers rq @ [(''Content-Type'', ''application/json'')]" for tr rq
    by (simp_all add: myhub_def header_writing_wifi_def)
  have fields: "status_code ok_response = 200"
    "json ok_response = Inr (JObj [(''deviceId'', JStr ''sensor1'')])"
    by (simp_all add: ok_response_def)
  have before: "azure_header (obj ?m) = [(''Authorization'', ''SharedAccessSignature sr=...'')]"
    by (simp add: myhub_def)
  have run: "get_device ''sensor1'' ?m =
      (Inr (JObj [(''deviceId'', JStr ''sensor1'')]),
       ?m\<lparr>obj := (obj ?m)\<lparr>azure_header :=
             [(''Authorization'', ''SharedAccessSignature sr=...''),
              (''Content-Type'', ''application/json'')]\<rparr>,
          trace := trace ?m @
            [Call \<lparr>req_verb = GET,
                   req_url = iot_hub_url (obj ?m) @ ''/devices/sensor1?api-version=2018-06-30'',
                   req_json = None,
                   req_headers = [(''Authorization'', ''SharedAccessSignature sr=...'')]\<rparr>,
             JsonCall]\<rparr>)"
    unfolding get_device_def Let_def hub_get_called [OF has] parse_http_status_cases
    by (simp add: transport fields before AZURE_API_VER_def)
  have after: "azure_header (obj (snd (get_device ''sensor1'' ?m))) =
       [(''Authorization'', ''SharedAccessSignature sr=...''),
        (''Content-Type'', ''application/json'')]"
    by (simp add: run)
  have "azure_header (obj (snd (get_device ''sensor1'' ?m))) \<noteq> azure_header (obj ?m)"
    unfolding after before by simp
  then have changed: "obj (snd (get_device ''sensor1'' ?m)) \<noteq> obj ?m"
    by auto
  from built before after changed show ?thesis
    by (simp add: run)
qed

text \<open>
  C8, as amended. Each of the seven public operations leaves the transport reference,
  the base URL and the SAS token as they were, whether the call returns or raises; and
  when the transport does not write to the header dictionary it is handed, the whole
  client object, the authorization header included, is as it was.
\<close>

theorem operations_keep_configuration:
  "(same_settings (obj (snd (send_device_message d msg m))) (obj m)
    \<and> same_settings (obj (snd (get_device_twin d m))) (obj m)
    \<and> same_settings (obj (snd (update_device_twin d props m))) (obj m)
    \<and> same_settings (obj (snd (replace_device_twin d props m))) (obj m)
    \<and> same_settings (obj (snd (get_devices m))) (obj m)
    \<and> same_settings (obj (snd (get_device d m))) (obj m)
    \<and> same_settings (obj (snd (delete_device d m))) (obj m))
   \<and> ((\<forall>tr rq. headers_after (wifi (obj m)) tr rq = req_headers rq) \<longrightarrow>
       obj (snd (send_device_message d msg m)) = obj m
       \<and> obj (snd (get_device_twin d m)) = obj m
       \<and> obj (snd (update_device_twin d props m)) = obj m
       \<and> obj (snd (replace_device_twin d props m)) = obj m
       \<and> obj (snd (get_devices m)) = obj m
       \<and> obj (snd (get_device d m)) = obj m
       \<and> obj (snd (delete_device d m)) = obj m)"
proof -
  have settings: "same_settings (obj (snd (send_device_message d msg m))) (obj m)
    \<and> same_settings (obj (snd (get_device_twin d m))) (obj m)
    \<and> same_settings (obj (snd (update_device_twin d props m))) (obj m)
    \<and> same_settings (obj (snd (replace_device_twin d props m))) (obj m)
    \<and> same_settings (obj (snd (get_devices m))) (obj m)
    \<and> same_settings (obj (snd (get_device d m))) (obj m)
    \<and> same_settings (obj (snd (delete_device d m))) (obj m)"
    by (simp add: send_device_message_def delete_device_def get_device_twin_def
        update_device_twin_def replace_device_twin_def get_devices_def get_device_def
        Let_def same_settings_discard_body hub_get_settings hub_post_settings
        hub_patch_settings hub_put_settings hub_delete_settings)
  have whole: "obj (snd (send_device_message d msg m)) = obj m
       \<and> obj (snd (get_device_twin d m)) = obj m
       \<and> obj (snd (update_device_twin d props m)) = obj m
       \<and> obj (snd (replace_device_twin d props m)) = obj m
       \<and> obj (snd (get_devices m)) = obj m
       \<and> obj (snd (get_device d m)) = obj m
       \<and> obj (snd (delete_device d m)) = obj m"
    if keeps: "\<And>tr rq. headers_after (wifi (obj m)) tr rq = req_headers rq"
    by (simp add: send_device_message_def delete_device_def get_device_twin_def
        update_device_twin_def replace_device_twin_def get_devices_def get_device_def
        Let_def snd_discard_body hub_get_object [OF keeps] hub_post_object [OF keeps]
        hub_patch_object [OF keeps] hub_put_object [OF keeps] hub_delete_object [OF keeps])
  from settings whole show ?thesis
    by blast
qed

theorem operations_keep_configuration_witness:
  "obj (snd (send_device_message ''sensor1'' (JStr ''hello'') (myhub (esp_wifi ok_response)))) =
     obj (myhub (esp_wifi ok_response))
   \<and> obj (snd (get_device_twin ''sensor1'' (myhub (esp_wifi ok_response)))) =
     obj (myhub (esp_wifi ok_response))
   \<and> obj (snd (update_device_twin ''sensor1'' (JObj [(''tags'', JObj [])])
       (myhub (esp_wifi ok_response)))) = obj (myhub (esp_wifi ok_response))
   \<and> obj (snd (replace_device_twin ''sensor1'' (JObj [(''tags'', JObj [])])
       (myhub (esp_wifi ok_response)))) = obj (myhub (esp_wifi ok_response))
   \<and> obj (snd (get_devices (myhub (esp_wifi ok_response)))) =
     obj (myhub (esp_wifi ok_response))
   \<and> obj (snd (get_device ''sensor1'' (myhub (esp_wifi ok_response)))) =
     obj (myhub (esp_wifi ok_response))
   \<and> obj (snd (delete_device ''sensor1'' (myhub (esp_wifi ok_response)))) =
     obj (myhub (esp_wifi ok_response))"
proof -
  have keeps: "\<forall>tr rq. headers_after (wifi (obj (myhub (esp_wifi ok_response)))) tr rq =
      req_headers rq"
    by (simp add: esp_wifi_keeps_headers)
  show ?thesis
    using operations_keep_configuration [of "''sensor1''" "JStr ''hello''"
        "myhub (esp_wifi ok_response)" "JObj [(''tags'', JObj [])]"] keeps
    by blast
qed

text \<open>
  C9. The failure of construction and the failure of the status check are both raised
  as \<^verbatim>\<open>TypeError\<close>: the two exceptions have the same class and differ only in their
  message.
\<close>

theorem both_failures_are_TypeError:
  assumes "\<not> sublist ''ESPSPI_WiFiManager'' (type_str w)"
    and "c \<in> {400, 401, 403, 404, 412, 429, 500}"
  shows "fst (IOT_HUB_init w h t tr) =
           Inl (Exn TypeError ''This library requires a WiFiManager object.'')
    \<and> parse_http_status c r = Inl (Exn TypeError (''Error '' @ str_int c @ '': '' @ r))
    \<and> exc_type (projl (fst (IOT_HUB_init w h t tr))) = exc_type (projl (parse_http_status c r))
    \<and> exc_msg (projl (fst (IOT_HUB_init w h t tr))) \<noteq> exc_msg (projl (parse_http_status c r))"
proof -
  from assms(2) have "c \<in> set AZURE_HTTP_ERROR_CODES"
    by (simp only: set_error_codes)
  note raised = parse_http_status_raises [OF this, of r]
  note rejected = init_rejects [OF assms(1), of h t tr]
  show ?thesis
    by (simp add: raised rejected)
qed

theorem both_failures_are_TypeError_witness:
  "fst (IOT_HUB_init (mock_requests ok_response) ''myhub'' ''SharedAccessSignature sr=...'' []) =
     Inl (Exn TypeError ''This library requires a WiFiManager object.'')
   \<and> parse_http_status 404 ''Not Found'' = Inl (Exn TypeError ''Error 404: Not Found'')"
proof -
  have name: "\<not> sublist ''ESPSPI_WiFiManager'' (type_str (mock_requests ok_response))"
    by (simp add: mock_requests_def mock_class_name)
  have listed: "(404::int) \<in> {400, 401, 403, 404, 412, 429, 500}"
    by simp
  show ?thesis
    using both_failures_are_TypeError [OF name listed, of "''myhub''"
        "''SharedAccessSignature sr=...''" "[]" "''Not Found''"]
    by (simp add: str_int_404)
qed

text \<open>
  C10. Whether construction accepts a transport depends only on whether the string
  \<^verbatim>\<open>ESPSPI_WiFiManager\<close> occurs in the name of its class: a transport with no verb
  method and that class name is accepted, a transport with all five verb methods and
  another class name is rejected, and changing the methods or the answers of a transport
  never changes the outcome.
\<close>

theorem acceptance_is_by_class_name:
  "(isl (fst (IOT_HUB_init w h t tr)) \<longleftrightarrow> \<not> sublist ''ESPSPI_WiFiManager'' (type_str w))
   \<and> ((\<forall>v. \<not> has_method w v) \<and> sublist ''ESPSPI_WiFiManager'' (type_str w) \<longrightarrow>
        fst (IOT_HUB_init w h t tr) =
          Inr \<lparr>wifi = w, iot_hub_url = ''https://'' @ h @ ''.azure-devices.net'',
                sas_token = t, azure_header = [(''Authorization'', t)]\<rparr>)
   \<and> ((\<forall>v. has_method w v) \<and> \<not> sublist ''ESPSPI_WiFiManager'' (type_str w) \<longrightarrow>
        fst (IOT_HUB_init w h t tr) =
          Inl (Exn TypeError ''This library requires a WiFiManager object.''))
   \<and> isl (fst (IOT_HUB_init (w\<lparr>has_method := hm, respond := rs\<rparr>) h' t' tr')) =
       isl (fst (IOT_HUB_init w h t tr))"
  by (simp add: IOT_HUB_init_def)

theorem acceptance_is_by_class_name_witness:
  "(\<not> has_method bare_wifi GET \<and> \<not> has_method bare_wifi POST \<and> \<not> has_method bare_wifi PUT
      \<and> \<not> has_method bare_wifi PATCH \<and> \<not> has_method bare_wifi DELETE)
   \<and> fst (IOT_HUB_init bare_wifi ''myhub'' ''SharedAccessSignature sr=...'' []) =
       Inr (obj (myhub bare_wifi))
   \<and> (has_method (mock_requests ok_response) GET \<and> has_method (mock_requests ok_response) POST
      \<and> has_method (mock_requests ok_response) PUT \<and> has_method (mock_requests ok_response) PATCH
      \<and> has_method (mock_requests ok_response) DELETE)
   \<and> fst (IOT_HUB_init (mock_requests ok_response) ''myhub'' ''SharedAccessSignature sr=...'' []) =
       Inl (Exn TypeError ''This library requires a WiFiManager object.'')"
proof -
  have bare: "(\<forall>v. \<not> has_method bare_wifi v) \<and> sublist ''ESPSPI_WiFiManager'' (type_str bare_wifi)"
    by (simp add: bare_wifi_def esp_class_name)
  have mock: "(\<forall>v. has_method (mock_requests ok_response) v)
      \<and> \<not> sublist ''ESPSPI_WiFiManager'' (type_str (mock_requests ok_response))"
    by (simp add: mock_requests_def mock_class_name)
  show ?thesis
    using acceptance_is_by_class_name [of bare_wifi "''myhub''"
        "''SharedAccessSignature sr=...''" "[]"] bare
      acceptance_is_by_class_name [of "mock_requests ok_response" "''myhub''"
        "''SharedAccessSignature sr=...''" "[]"] mock
    by (simp add: myhub_def)
qed

end
